theory Spec2Isabelle
  imports Main "HOL-Library.AList"
begin

section \<open>JavaScript values\<close>

text \<open>
  The API layer (\<^verbatim>\<open>services/api/index.ts\<close>) and the two views handle untyped values
  (\<^verbatim>\<open>any\<close>): error objects, response bodies, request configurations. They are modelled
  by one datatype of JSON-like values. Numbers are the integers (status codes, day
  windows, identifiers, timeouts); an object is the list of its properties, looked up by
  name, the first entry of a name being the property.
\<close>

datatype jsval =
    JUndefined
  | JNull
  | JBool bool
  | JNum int
  | JStr string
  | JArr "jsval list"
  | JObj "(string \<times> jsval) list"

datatype js_exception = TypeError | SyntaxError

text \<open>ToBoolean, as used by \<^verbatim>\<open>||\<close>, \<^verbatim>\<open>&&\<close> and \<^verbatim>\<open>if\<close>.\<close>

fun truthy :: "jsval \<Rightarrow> bool" where
  "truthy JUndefined = False"
| "truthy JNull = False"
| "truthy (JBool b) = b"
| "truthy (JNum n) = (n \<noteq> 0)"
| "truthy (JStr s) = (s \<noteq> [])"
| "truthy (JArr xs) = True"
| "truthy (JObj fs) = True"

fun nullish :: "jsval \<Rightarrow> bool" where
  "nullish JUndefined = True"
| "nullish JNull = True"
| "nullish v = False"

fun is_array :: "jsval \<Rightarrow> bool" where
  "is_array (JArr xs) = True"
| "is_array v = False"

fun is_string :: "jsval \<Rightarrow> bool" where
  "is_string (JStr s) = True"
| "is_string v = False"

text \<open>
  Reading a property of a value that is neither \<^verbatim>\<open>null\<close> nor \<^verbatim>\<open>undefined\<close>. The
  names the program reads (\<^verbatim>\<open>response\<close>, \<^verbatim>\<open>data\<close>, \<^verbatim>\<open>detail\<close>, \<^verbatim>\<open>message\<close>,
  \<^verbatim>\<open>status\<close>, \<^verbatim>\<open>time\<close>, \<^verbatim>\<open>level\<close>) are properties of no primitive and of no array,
  so there the result is \<^verbatim>\<open>undefined\<close>.
\<close>

fun get_prop :: "jsval \<Rightarrow> string \<Rightarrow> jsval" where
  "get_prop (JObj fs) k = (case map_of fs k of None \<Rightarrow> JUndefined | Some v \<Rightarrow> v)"
| "get_prop v k = JUndefined"

text \<open>\<^verbatim>\<open>v.k\<close>: a TypeError on \<^verbatim>\<open>null\<close> and \<^verbatim>\<open>undefined\<close>.\<close>

definition member :: "jsval \<Rightarrow> string \<Rightarrow> js_exception + jsval" where
  "member v k = (if nullish v then Inl TypeError else Inr (get_prop v k))"

text \<open>\<^verbatim>\<open>v?.k\<close>: \<^verbatim>\<open>undefined\<close> on \<^verbatim>\<open>null\<close> and \<^verbatim>\<open>undefined\<close>.\<close>

definition opt_member :: "jsval \<Rightarrow> string \<Rightarrow> jsval" where
  "opt_member v k = (if nullish v then JUndefined else get_prop v k)"

text \<open>
  \<^verbatim>\<open>a || b\<close> on operands that may throw: the right operand is evaluated only when the
  left one is falsy.
\<close>

definition js_or :: "js_exception + jsval \<Rightarrow> js_exception + jsval \<Rightarrow> js_exception + jsval" where
  "js_or a b = (case a of Inl ex \<Rightarrow> Inl ex | Inr v \<Rightarrow> if truthy v then Inr v else b)"

section \<open>The response interceptors\<close>

text \<open>
  What the handlers do to the outside: calls of \<^verbatim>\<open>console.error\<close> (each with its list of
  arguments), calls of \<^verbatim>\<open>ElMessage.error\<close> (each with its argument), and the request
  configurations handed to the transport.
\<close>

record world =
  console :: "jsval list list"
  notifications :: "jsval list"
  sent :: "jsval list"

datatype promise = Fulfilled jsval | Rejected jsval

text \<open>The string literals of the handler, as the UTF-8 bytes of the source file.\<close>

definition fallback_message :: string where
  "fallback_message =
     [CHR 0xE8, CHR 0xAF, CHR 0xB7, CHR 0xE6, CHR 0xB1, CHR 0x82,
      CHR 0xE5, CHR 0xA4, CHR 0xB1, CHR 0xE8, CHR 0xB4, CHR 0xA5]"

definition response_error_label :: string where
  "response_error_label =
     [CHR 0xE5, CHR 0x93, CHR 0x8D, CHR 0xE5, CHR 0xBA, CHR 0x94, CHR 0xE9, CHR 0x94,
      CHR 0x99, CHR 0xE8, CHR 0xAF, CHR 0xAF, CHR 0x3A]"

definition backend_500_label :: string where
  "backend_500_label =
     [CHR 0xF0, CHR 0x9F, CHR 0x9A, CHR 0xA8, CHR 0x20, CHR 0xE5, CHR 0x90, CHR 0x8E,
      CHR 0xE7, CHR 0xAB, CHR 0xAF, CHR 0x20, CHR 0x35, CHR 0x30, CHR 0x30, CHR 0x20,
      CHR 0xE9, CHR 0x94, CHR 0x99, CHR 0xE8, CHR 0xAF, CHR 0xAF, CHR 0xE8, CHR 0xAF,
      CHR 0xA6, CHR 0xE6, CHR 0x83, CHR 0x85, CHR 0x3A]"

definition console_error :: "jsval list \<Rightarrow> world \<Rightarrow> world" where
  "console_error args w = w\<lparr>console := console w @ [args]\<rparr>"

text \<open>
  \<^verbatim>\<open>ElMessage.error(m)\<close> of the notification library, which is not part of the
  repository. The library takes a string, or a falsy value, as the text of the message.
  Any other value it takes as its options object and appends the message to the
  \<^verbatim>\<open>appendTo\<close> of the options: absent or falsy means the body of the document, a
  string is a selector looked up in the document (the body when nothing is found), and any
  other value is used as the DOM node itself. No JSON value is a DOM node, so there the
  append throws a TypeError.
\<close>

definition ElMessage_throws :: "jsval \<Rightarrow> bool" where
  "ElMessage_throws m =
     (truthy m \<and> \<not> is_string m
      \<and> truthy (get_prop m ''appendTo'') \<and> \<not> is_string (get_prop m ''appendTo''))"

text \<open>The call is recorded with its argument, whether it returns or throws.\<close>

definition ElMessage_error :: "jsval \<Rightarrow> world \<Rightarrow> world \<times> (js_exception + unit)" where
  "ElMessage_error m w =
     (w\<lparr>notifications := notifications w @ [m]\<rparr>,
      if ElMessage_throws m then Inl TypeError else Inr ())"

text \<open>\<^verbatim>\<open>error.response?.data?.k\<close>\<close>

definition response_data_field :: "jsval \<Rightarrow> string \<Rightarrow> js_exception + jsval" where
  "response_data_field error k =
     (case member error ''response'' of
        Inl ex \<Rightarrow> Inl ex
      | Inr r \<Rightarrow> Inr (opt_member (opt_member r ''data'') k))"

text \<open>
  \<^verbatim>\<open>error.response?.data?.detail || error.response?.data?.message || error.message || '...'\<close>
\<close>

definition build_message :: "jsval \<Rightarrow> js_exception + jsval" where
  "build_message error =
     js_or (response_data_field error ''detail'')
       (js_or (response_data_field error ''message'')
          (js_or (member error ''message'') (Inr (JStr fallback_message))))"

text \<open>\<^verbatim>\<open>error.response?.status === 500\<close>\<close>

definition status_is_500 :: "jsval \<Rightarrow> js_exception + bool" where
  "status_is_500 error =
     (case member error ''response'' of
        Inl ex \<Rightarrow> Inl ex
      | Inr r \<Rightarrow> Inr (opt_member r ''status'' = JNum 500))"

text \<open>\<^verbatim>\<open>error.response.data\<close>\<close>

definition response_data :: "jsval \<Rightarrow> js_exception + jsval" where
  "response_data error =
     (case member error ''response'' of
        Inl ex \<Rightarrow> Inl ex
      | Inr r \<Rightarrow> member r ''data'')"

text \<open>
  The rejection handler of \<^verbatim>\<open>instance.interceptors.response\<close>. It returns the world after
  its calls and either the exception it threw or the promise it returned. No statement of
  the handler is inside a \<^verbatim>\<open>try\<close>, so an exception of a read or of
  \<^verbatim>\<open>ElMessage.error\<close> ends the handler before its \<^verbatim>\<open>return\<close>.
\<close>

definition response_error_handler :: "jsval \<Rightarrow> world \<Rightarrow> world \<times> (js_exception + promise)" where
  "response_error_handler error w =
     (let w1 = console_error [JStr response_error_label, error] w in
      case build_message error of
        Inl ex \<Rightarrow> (w1, Inl ex)
      | Inr message \<Rightarrow>
          (case status_is_500 error of
             Inl ex \<Rightarrow> (w1, Inl ex)
           | Inr False \<Rightarrow>
               (case ElMessage_error message w1 of
                  (w2, Inl ex) \<Rightarrow> (w2, Inl ex)
                | (w2, Inr u) \<Rightarrow> (w2, Inr (Rejected error)))
           | Inr True \<Rightarrow>
               (case response_data error of
                  Inl ex \<Rightarrow> (w1, Inl ex)
                | Inr payload \<Rightarrow>
                    (case ElMessage_error message
                            (console_error [JStr backend_500_label, payload] w1) of
                       (w2, Inl ex) \<Rightarrow> (w2, Inl ex)
                     | (w2, Inr u) \<Rightarrow> (w2, Inr (Rejected error))))))"

text \<open>
  The message as the specification words it: the first value present among the
  \<^verbatim>\<open>detail\<close> string of the response body, its \<^verbatim>\<open>message\<close> string and the message of
  the error, else the fallback literal.
\<close>

definition probed_values :: "jsval \<Rightarrow> jsval list" where
  "probed_values error =
     [opt_member (opt_member (get_prop error ''response'') ''data'') ''detail'',
      opt_member (opt_member (get_prop error ''response'') ''data'') ''message'',
      get_prop error ''message'']"

definition spec_message :: "jsval \<Rightarrow> jsval" where
  "spec_message error =
     (case filter is_string (probed_values error) of
        [] \<Rightarrow> JStr fallback_message
      | v # vs \<Rightarrow> v)"

text \<open>Values for running the definitions: a world with nothing in it, a network that answers.\<close>

definition empty_world :: world where
  "empty_world = \<lparr>console = [], notifications = [], sent = []\<rparr>"

section \<open>The transport client\<close>

type_synonym js_object = "(string \<times> jsval) list"

text \<open>
  An object literal with a spread, \<^verbatim>\<open>{ k1: v1, ..., ...config }\<close>: the properties of
  \<^verbatim>\<open>config\<close> are written over the ones before, in their order; an omitted
  \<^verbatim>\<open>config\<close> (\<^verbatim>\<open>undefined\<close>) adds nothing.
\<close>

definition spread :: "js_object \<Rightarrow> js_object option \<Rightarrow> js_object" where
  "spread base config =
     (case config of
        None \<Rightarrow> base
      | Some fs \<Rightarrow> fold (\<lambda>(k, v). AList.update k v) (AList.clearjunk fs) base)"

text \<open>The properties a \<^verbatim>\<open>config\<close> argument has: none when it is omitted.\<close>

definition config_props :: "js_object option \<Rightarrow> (string \<rightharpoonup> jsval)" where
  "config_props config = (case config of None \<Rightarrow> Map.empty | Some fs \<Rightarrow> map_of fs)"

text \<open>A default parameter value, \<^verbatim>\<open>(x = d) => ...\<close>: taken when the argument is \<^verbatim>\<open>undefined\<close>.\<close>

definition default_param :: "jsval \<Rightarrow> jsval \<Rightarrow> jsval" where
  "default_param d v = (if v = JUndefined then d else v)"

text \<open>
  An identifier inside a template literal, \<^verbatim>\<open>`/accounts/${id}`\<close>: the decimal digits of
  the integer, as JavaScript prints an integer below \<^verbatim>\<open>1e21\<close>.
\<close>

fun show_nat :: "nat \<Rightarrow> string" where
  "show_nat n =
     (if n < 10 then [''0123456789'' ! n]
      else show_nat (n div 10) @ [''0123456789'' ! (n mod 10)])"

definition show_number :: "int \<Rightarrow> string" where
  "show_number i = (if i < 0 then CHR ''-'' # show_nat (nat (- i)) else show_nat (nat i))"

text \<open>The response of the transport library: the body and the envelope around it.\<close>

record axios_response =
  data :: jsval
  status :: int
  statusText :: string
  headers :: "(string \<times> string) list"

text \<open>
  The client made by \<^verbatim>\<open>axios.create\<close>: its defaults, and the network behind it, a
  function from the request on the wire to the error it rejects with or the response.
\<close>

record client =
  defaults :: js_object
  adapter :: "jsval \<Rightarrow> jsval + axios_response"

text \<open>\<^verbatim>\<open>import.meta.env.VITE_API_BASE_URL || '/api'\<close>\<close>

definition BASE_URL :: "jsval \<Rightarrow> jsval" where
  "BASE_URL env_url = (if truthy env_url then env_url else JStr ''/api'')"

definition axios_instance :: "jsval \<Rightarrow> (jsval \<Rightarrow> jsval + axios_response) \<Rightarrow> client" where
  "axios_instance env_url net =
     \<lparr>defaults =
        [(''baseURL'', BASE_URL env_url),
         (''timeout'', JNum 30000),
         (''headers'', JObj [(''Content-Type'', JStr ''application/json'')])],
      adapter = net\<rparr>"

text \<open>
  The transport library merges the configuration of a call over the defaults of the
  client: an option the call defines (with a value other than \<^verbatim>\<open>undefined\<close>) wins, any
  other option keeps the default. The library is not part of the repository; this is its
  rule for the options of this program (\<^verbatim>\<open>method\<close>, \<^verbatim>\<open>url\<close>, \<^verbatim>\<open>params\<close>, \<^verbatim>\<open>data\<close>,
  \<^verbatim>\<open>timeout\<close>, \<^verbatim>\<open>baseURL\<close>).
\<close>

definition merge_config :: "js_object \<Rightarrow> js_object \<Rightarrow> js_object" where
  "merge_config dflt config =
     spread dflt (Some (filter (\<lambda>(k, v). v \<noteq> JUndefined) config))"

text \<open>The request interceptor: \<^verbatim>\<open>(config) => { return config }\<close>.\<close>

definition request_interceptor :: "js_object \<Rightarrow> js_object" where
  "request_interceptor config = config"

text \<open>The success handler of the response interceptor: \<^verbatim>\<open>return response.data\<close>.\<close>

definition response_success_handler :: "axios_response \<Rightarrow> jsval" where
  "response_success_handler response = data response"

text \<open>
  \<^verbatim>\<open>request(config)\<close>, that is \<^verbatim>\<open>instance.request(config)\<close>: the merged configuration
  goes through the request interceptor to the network, and the outcome through the
  response interceptor. The result is the promise the caller awaits; \<open>Inl\<close> is the case
  of a handler that threw, where the promise is rejected with that exception.
\<close>

definition request :: "client \<Rightarrow> js_object \<Rightarrow> world \<Rightarrow> world \<times> (js_exception + promise)" where
  "request inst config w =
     (let wire = JObj (request_interceptor (merge_config (defaults inst) config));
          w1 = w\<lparr>sent := sent w @ [wire]\<rparr>
      in case adapter inst wire of
           Inr response \<Rightarrow> (w1, Inr (Fulfilled (response_success_handler response)))
         | Inl error \<Rightarrow> response_error_handler error w1)"

subsection \<open>Verb helpers\<close>

text \<open>The object literals the four helpers hand to \<^verbatim>\<open>request\<close>.\<close>

definition get_config :: "string \<Rightarrow> jsval \<Rightarrow> js_object option \<Rightarrow> js_object" where
  "get_config url params config =
     spread [(''method'', JStr ''GET''), (''url'', JStr url), (''params'', params)] config"

definition post_config :: "string \<Rightarrow> jsval \<Rightarrow> js_object option \<Rightarrow> js_object" where
  "post_config url body config =
     spread [(''method'', JStr ''POST''), (''url'', JStr url), (''data'', body)] config"

definition put_config :: "string \<Rightarrow> jsval \<Rightarrow> js_object option \<Rightarrow> js_object" where
  "put_config url body config =
     spread [(''method'', JStr ''PUT''), (''url'', JStr url), (''data'', body)] config"

definition del_config :: "string \<Rightarrow> jsval \<Rightarrow> js_object option \<Rightarrow> js_object" where
  "del_config url params config =
     spread [(''method'', JStr ''DELETE''), (''url'', JStr url), (''params'', params)] config"

type_synonym call = "world \<Rightarrow> world \<times> (js_exception + promise)"

definition get :: "client \<Rightarrow> string \<Rightarrow> jsval \<Rightarrow> js_object option \<Rightarrow> call" where
  "get inst url params config = request inst (get_config url params config)"

definition post :: "client \<Rightarrow> string \<Rightarrow> jsval \<Rightarrow> js_object option \<Rightarrow> call" where
  "post inst url body config = request inst (post_config url body config)"

definition put :: "client \<Rightarrow> string \<Rightarrow> jsval \<Rightarrow> js_object option \<Rightarrow> call" where
  "put inst url body config = request inst (put_config url body config)"

definition del :: "client \<Rightarrow> string \<Rightarrow> jsval \<Rightarrow> js_object option \<Rightarrow> call" where
  "del inst url params config = request inst (del_config url params config)"

text \<open>
  A network for running the definitions: every request is answered with status 200 and
  the body \<^verbatim>\<open>{ data: [], success: true }\<close>.
\<close>

definition sample_network :: "jsval \<Rightarrow> jsval + axios_response" where
  "sample_network wire =
     Inr \<lparr>data = JObj [(''data'', JArr []), (''success'', JBool True)],
          status = 200, statusText = ''OK'', headers = []\<rparr>"

definition sample_client :: client where
  "sample_client = axios_instance JUndefined sample_network"





section \<open>The domain facades\<close>

subsection \<open>accountApi\<close>

definition accountApi_getList :: "client \<Rightarrow> jsval \<Rightarrow> call" where
  "accountApi_getList inst params = get inst ''/accounts'' params None"

definition accountApi_startAuth :: "client \<Rightarrow> jsval \<Rightarrow> call" where
  "accountApi_startAuth inst body = post inst ''/accounts/auth/start'' body None"

definition accountApi_getAuthStatus :: "client \<Rightarrow> string \<Rightarrow> call" where
  "accountApi_getAuthStatus inst taskId =
     get inst (''/accounts/auth/status/'' @ taskId) JUndefined None"

definition accountApi_update :: "client \<Rightarrow> int \<Rightarrow> jsval \<Rightarrow> call" where
  "accountApi_update inst ident body = put inst (''/accounts/'' @ show_number ident) body None"

definition accountApi_delete :: "client \<Rightarrow> int \<Rightarrow> call" where
  "accountApi_delete inst ident = del inst (''/accounts/'' @ show_number ident) JUndefined None"

subsection \<open>geoKeywordApi\<close>

definition geoKeywordApi_getProjects :: "client \<Rightarrow> call" where
  "geoKeywordApi_getProjects inst = get inst ''/keywords/projects'' JUndefined None"

definition geoKeywordApi_getProject :: "client \<Rightarrow> int \<Rightarrow> call" where
  "geoKeywordApi_getProject inst ident =
     get inst (''/keywords/projects/'' @ show_number ident) JUndefined None"

definition geoKeywordApi_getProjectKeywords :: "client \<Rightarrow> int \<Rightarrow> call" where
  "geoKeywordApi_getProjectKeywords inst projectId =
     get inst (''/keywords/projects/'' @ show_number projectId @ ''/keywords'') JUndefined None"

definition geoKeywordApi_createProject :: "client \<Rightarrow> jsval \<Rightarrow> call" where
  "geoKeywordApi_createProject inst body = post inst ''/keywords/projects'' body None"

definition geoKeywordApi_createKeyword :: "client \<Rightarrow> int \<Rightarrow> jsval \<Rightarrow> call" where
  "geoKeywordApi_createKeyword inst projectId body =
     post inst (''/keywords/projects/'' @ show_number projectId @ ''/keywords'') body None"

definition geoKeywordApi_distill :: "client \<Rightarrow> jsval \<Rightarrow> call" where
  "geoKeywordApi_distill inst body = post inst ''/keywords/distill'' body None"

definition geoKeywordApi_generateQuestions :: "client \<Rightarrow> jsval \<Rightarrow> call" where
  "geoKeywordApi_generateQuestions inst body =
     post inst ''/keywords/generate-questions'' body None"

subsection \<open>geoArticleApi\<close>

definition geoArticleApi_getArticles :: "client \<Rightarrow> jsval \<Rightarrow> call" where
  "geoArticleApi_getArticles inst params = get inst ''/geo/articles'' params None"

definition geoArticleApi_generate :: "client \<Rightarrow> jsval \<Rightarrow> call" where
  "geoArticleApi_generate inst body =
     post inst ''/geo/generate'' body (Some [(''timeout'', JNum 300000)])"

definition geoArticleApi_checkQuality :: "client \<Rightarrow> int \<Rightarrow> call" where
  "geoArticleApi_checkQuality inst ident =
     post inst (''/geo/articles/'' @ show_number ident @ ''/check-quality'') JUndefined None"

definition geoArticleApi_checkIndex :: "client \<Rightarrow> int \<Rightarrow> call" where
  "geoArticleApi_checkIndex inst ident =
     post inst (''/geo/articles/'' @ show_number ident @ ''/check-index'') JUndefined None"

definition geoArticleApi_getDetail :: "client \<Rightarrow> int \<Rightarrow> call" where
  "geoArticleApi_getDetail inst ident =
     get inst (''/geo/articles/'' @ show_number ident) JUndefined None"

definition geoArticleApi_delete :: "client \<Rightarrow> int \<Rightarrow> call" where
  "geoArticleApi_delete inst ident =
     del inst (''/geo/articles/'' @ show_number ident) JUndefined None"

subsection \<open>indexCheckApi\<close>

definition indexCheckApi_check :: "client \<Rightarrow> jsval \<Rightarrow> call" where
  "indexCheckApi_check inst body = post inst ''/index-check/check'' body None"

definition indexCheckApi_getRecords :: "client \<Rightarrow> jsval \<Rightarrow> call" where
  "indexCheckApi_getRecords inst params = get inst ''/index-check/records'' params None"

text \<open>\<^verbatim>\<open>(keywordId: number, days = 7) => get(`/index-check/trend/${keywordId}`, { days })\<close>\<close>

definition indexCheckApi_getTrend :: "client \<Rightarrow> int \<Rightarrow> jsval \<Rightarrow> call" where
  "indexCheckApi_getTrend inst keywordId days =
     get inst (''/index-check/trend/'' @ show_number keywordId)
       (JObj [(''days'', default_param (JNum 7) days)]) None"

subsection \<open>reportsApi\<close>

definition reportsApi_getOverview :: "client \<Rightarrow> call" where
  "reportsApi_getOverview inst = get inst ''/reports/overview'' JUndefined None"

text \<open>\<^verbatim>\<open>(days: number = 30) => get('/reports/trends', { days })\<close>\<close>

definition reportsApi_getTrends :: "client \<Rightarrow> jsval \<Rightarrow> call" where
  "reportsApi_getTrends inst days =
     get inst ''/reports/trends'' (JObj [(''days'', default_param (JNum 30) days)]) None"

definition reportsApi_getIndexTrend :: "client \<Rightarrow> jsval \<Rightarrow> call" where
  "reportsApi_getIndexTrend inst params = get inst ''/reports/trend/index'' params None"

subsection \<open>schedulerApi\<close>

definition schedulerApi_getJobs :: "client \<Rightarrow> call" where
  "schedulerApi_getJobs inst = get inst ''/scheduler/jobs'' JUndefined None"

definition schedulerApi_start :: "client \<Rightarrow> call" where
  "schedulerApi_start inst = post inst ''/scheduler/start'' (JObj []) None"

definition schedulerApi_stop :: "client \<Rightarrow> call" where
  "schedulerApi_stop inst = post inst ''/scheduler/stop'' (JObj []) None"

subsection \<open>Every operation of the facades\<close>

text \<open>One constructor for each operation of the six facades, with its arguments.\<close>

datatype facade_call =
    AccountGetList jsval
  | AccountStartAuth jsval
  | AccountGetAuthStatus string
  | AccountUpdate int jsval
  | AccountDelete int
  | KeywordGetProjects
  | KeywordGetProject int
  | KeywordGetProjectKeywords int
  | KeywordCreateProject jsval
  | KeywordCreateKeyword int jsval
  | KeywordDistill jsval
  | KeywordGenerateQuestions jsval
  | ArticleGetArticles jsval
  | ArticleGenerate jsval
  | ArticleCheckQuality int
  | ArticleCheckIndex int
  | ArticleGetDetail int
  | ArticleDelete int
  | IndexCheck jsval
  | IndexGetRecords jsval
  | IndexGetTrend int jsval
  | ReportsGetOverview
  | ReportsGetTrends jsval
  | ReportsGetIndexTrend jsval
  | SchedulerGetJobs
  | SchedulerStart
  | SchedulerStop

fun perform :: "client \<Rightarrow> facade_call \<Rightarrow> call" where
  "perform inst (AccountGetList params) = accountApi_getList inst params"
| "perform inst (AccountStartAuth body) = accountApi_startAuth inst body"
| "perform inst (AccountGetAuthStatus taskId) = accountApi_getAuthStatus inst taskId"
| "perform inst (AccountUpdate ident body) = accountApi_update inst ident body"
| "perform inst (AccountDelete ident) = accountApi_delete inst ident"
| "perform inst KeywordGetProjects = geoKeywordApi_getProjects inst"
| "perform inst (KeywordGetProject ident) = geoKeywordApi_getProject inst ident"
| "perform inst (KeywordGetProjectKeywords p) = geoKeywordApi_getProjectKeywords inst p"
| "perform inst (KeywordCreateProject body) = geoKeywordApi_createProject inst body"
| "perform inst (KeywordCreateKeyword p body) = geoKeywordApi_createKeyword inst p body"
| "perform inst (KeywordDistill body) = geoKeywordApi_distill inst body"
| "perform inst (KeywordGenerateQuestions body) = geoKeywordApi_generateQuestions inst body"
| "perform inst (ArticleGetArticles params) = geoArticleApi_getArticles inst params"
| "perform inst (ArticleGenerate body) = geoArticleApi_generate inst body"
| "perform inst (ArticleCheckQuality ident) = geoArticleApi_checkQuality inst ident"
| "perform inst (ArticleCheckIndex ident) = geoArticleApi_checkIndex inst ident"
| "perform inst (ArticleGetDetail ident) = geoArticleApi_getDetail inst ident"
| "perform inst (ArticleDelete ident) = geoArticleApi_delete inst ident"
| "perform inst (IndexCheck body) = indexCheckApi_check inst body"
| "perform inst (IndexGetRecords params) = indexCheckApi_getRecords inst params"
| "perform inst (IndexGetTrend keywordId days) = indexCheckApi_getTrend inst keywordId days"
| "perform inst ReportsGetOverview = reportsApi_getOverview inst"
| "perform inst (ReportsGetTrends days) = reportsApi_getTrends inst days"
| "perform inst (ReportsGetIndexTrend params) = reportsApi_getIndexTrend inst params"
| "perform inst SchedulerGetJobs = schedulerApi_getJobs inst"
| "perform inst SchedulerStart = schedulerApi_start inst"
| "perform inst SchedulerStop = schedulerApi_stop inst"

text \<open>A run of calls, one after the other, on the shared client.\<close>

fun perform_all :: "client \<Rightarrow> facade_call list \<Rightarrow> world \<Rightarrow> world" where
  "perform_all inst [] w = w"
| "perform_all inst (c # cs) w = perform_all inst cs (fst (perform inst c w))"

fun is_generate :: "facade_call \<Rightarrow> bool" where
  "is_generate (ArticleGenerate body) = True"
| "is_generate c = False"

section \<open>The views\<close>

subsection \<open>Lists read from a response\<close>

text \<open>
  \<^verbatim>\<open>Articles.vue\<close>, \<^verbatim>\<open>loadArticles\<close>: the value assigned to \<^verbatim>\<open>articles\<close> from the
  response \<^verbatim>\<open>res\<close>:
  \<^verbatim>\<open>if (Array.isArray(res)) res else if (res && Array.isArray(res.data)) res.data else []\<close>.
\<close>

definition loadArticles_articles :: "jsval \<Rightarrow> js_exception + jsval" where
  "loadArticles_articles res =
     (if is_array res then Inr res
      else if \<not> truthy res then Inr (JArr [])
      else case member res ''data'' of
             Inl ex \<Rightarrow> Inl ex
           | Inr d \<Rightarrow> if is_array d then Inr d else Inr (JArr []))"

text \<open>
  \<^verbatim>\<open>Monitor.vue\<close>, \<^verbatim>\<open>initChart\<close>: \<^verbatim>\<open>Array.isArray(res) ? res : (res?.data || [])\<close>. The
  same expression gives \<^verbatim>\<open>projects\<close> and \<^verbatim>\<open>keywords\<close> in both views.
\<close>

definition initChart_data :: "jsval \<Rightarrow> jsval" where
  "initChart_data res =
     (if is_array res then res
      else let d = opt_member res ''data'' in if truthy d then d else JArr [])"

definition loadProjects_projects :: "jsval \<Rightarrow> jsval" where
  "loadProjects_projects res =
     (if is_array res then res
      else let d = opt_member res ''data'' in if truthy d then d else JArr [])"

definition onProjectChange_keywords :: "jsval \<Rightarrow> jsval" where
  "onProjectChange_keywords res =
     (if is_array res then res
      else let d = opt_member res ''data'' in if truthy d then d else JArr [])"

text \<open>\<^verbatim>\<open>data.map(f)\<close>: a TypeError when \<^verbatim>\<open>data\<close> is no array, or when \<^verbatim>\<open>f\<close> throws.\<close>

fun map_elements :: "(jsval \<Rightarrow> js_exception + jsval) \<Rightarrow> jsval list \<Rightarrow> js_exception + jsval list" where
  "map_elements f [] = Inr []"
| "map_elements f (x # xs) =
     (case f x of
        Inl ex \<Rightarrow> Inl ex
      | Inr y \<Rightarrow> (case map_elements f xs of Inl ex \<Rightarrow> Inl ex | Inr ys \<Rightarrow> Inr (y # ys)))"

fun array_map :: "(jsval \<Rightarrow> js_exception + jsval) \<Rightarrow> jsval \<Rightarrow> js_exception + jsval list" where
  "array_map f (JArr xs) = map_elements f xs"
| "array_map f v = Inl TypeError"

text \<open>
  The two series \<^verbatim>\<open>initChart\<close> gives to the chart:
  \<^verbatim>\<open>data.map(d => d.date)\<close> and \<^verbatim>\<open>data.map(d => d.keyword_found_count || 0)\<close>.
\<close>

definition initChart_series :: "jsval \<Rightarrow> js_exception + (jsval list \<times> jsval list)" where
  "initChart_series res =
     (let d = initChart_data res in
      case array_map (\<lambda>p. member p ''date'') d of
        Inl ex \<Rightarrow> Inl ex
      | Inr dates \<Rightarrow>
          (case array_map (\<lambda>p. js_or (member p ''keyword_found_count'') (Inr (JNum 0))) d of
             Inl ex \<Rightarrow> Inl ex
           | Inr counts \<Rightarrow> Inr (dates, counts)))"

text \<open>
  The rule of the specification for a list read from a response: a sequence is used as
  it is; else a sequence held in the field \<^verbatim>\<open>data\<close> is used; else the list is empty.
\<close>

definition spec_list_of_response :: "jsval \<Rightarrow> jsval" where
  "spec_list_of_response res =
     (if is_array res then res
      else if is_array (get_prop res ''data'') then get_prop res ''data''
      else JArr [])"

subsection \<open>The log of the monitoring view\<close>

record log_entry =
  entry_time :: jsval
  entry_level :: jsval
  entry_message :: jsval

text \<open>
  \<^verbatim>\<open>socket.onmessage\<close> in \<^verbatim>\<open>Monitor.vue\<close>. Its argument is what
  \<^verbatim>\<open>JSON.parse(event.data)\<close> gives: the parsed value, or the SyntaxError it throws. The
  handler catches every exception and drops it; \<^verbatim>\<open>logs\<close> then stays as it was at the
  throw.
\<close>

definition socket_onmessage :: "js_exception + jsval \<Rightarrow> log_entry list \<Rightarrow> log_entry list" where
  "socket_onmessage parsed logs =
     (case parsed of
        Inl ex \<Rightarrow> logs
      | Inr d \<Rightarrow>
          if \<not> truthy d then logs
          else
            (case member d ''message'' of
               Inl ex \<Rightarrow> logs
             | Inr m \<Rightarrow>
                 if \<not> truthy m then logs
                 else
                   (case js_or (member d ''time'') (Inr (JStr [])) of
                      Inl ex \<Rightarrow> logs
                    | Inr t \<Rightarrow>
                        (case js_or (member d ''level'') (Inr (JStr ''INFO'')) of
                           Inl ex \<Rightarrow> logs
                         | Inr l \<Rightarrow>
                             (let pushed =
                                    logs @ [\<lparr>entry_time = t, entry_level = l, entry_message = m\<rparr>]
                              in if length pushed > 50 then tl pushed else pushed)))))"

text \<open>The log after a run of messages, from the empty list the view starts with.\<close>

fun receive_all :: "(js_exception + jsval) list \<Rightarrow> log_entry list \<Rightarrow> log_entry list" where
  "receive_all [] logs = logs"
| "receive_all (ev # evs) logs = receive_all evs (socket_onmessage ev logs)"

section \<open>Properties of the error interceptor\<close>

subsection \<open>The handler on an error value\<close>

text \<open>
  Every read of the handler starts from \<^verbatim>\<open>error\<close> itself, so on an error that is
  neither \<^verbatim>\<open>null\<close> nor \<^verbatim>\<open>undefined\<close> no read throws, and the handler is the
  straight-line program below.
\<close>

lemma member_defined: "\<not> nullish v \<Longrightarrow> member v k = Inr (get_prop v k)"
  by (simp add: member_def)

lemma build_message_defined:
  assumes "\<not> nullish e"
  shows "build_message e =
     Inr (case filter truthy (probed_values e) of [] \<Rightarrow> JStr fallback_message | v # vs \<Rightarrow> v)"
  using assms
  by (simp add: build_message_def response_data_field_def member_def js_or_def probed_values_def)

lemma status_is_500_defined:
  "\<not> nullish e \<Longrightarrow>
   status_is_500 e = Inr (opt_member (get_prop e ''response'') ''status'' = JNum 500)"
  by (simp add: status_is_500_def member_def)

lemma status_500_response_defined:
  "opt_member r ''status'' = JNum 500 \<Longrightarrow> \<not> nullish r"
  by (auto simp: opt_member_def)

lemma response_data_defined:
  "\<not> nullish e \<Longrightarrow> opt_member (get_prop e ''response'') ''status'' = JNum 500 \<Longrightarrow>
   response_data e = Inr (get_prop (get_prop e ''response'') ''data'')"
  by (simp add: response_data_def member_def status_500_response_defined)

lemma handler_defined:
  assumes "\<not> nullish e"
  shows "response_error_handler e w =
     (let m = (case filter truthy (probed_values e) of
                 [] \<Rightarrow> JStr fallback_message | v # vs \<Rightarrow> v);
          w1 = console_error [JStr response_error_label, e] w
      in (fst (ElMessage_error m
                (if opt_member (get_prop e ''response'') ''status'' = JNum 500
                 then console_error
                        [JStr backend_500_label, get_prop (get_prop e ''response'') ''data''] w1
                 else w1)),
          if ElMessage_throws m then Inl TypeError else Inr (Rejected e)))"
  using assms
  by (simp add: response_error_handler_def build_message_defined status_is_500_defined
      response_data_defined Let_def ElMessage_error_def)

text \<open>
  On \<^verbatim>\<open>undefined\<close> itself the first read, \<^verbatim>\<open>error.response\<close>, throws; the transport
  library rejects with error objects, never with \<^verbatim>\<open>undefined\<close> or \<^verbatim>\<open>null\<close>.
\<close>

lemma handler_on_undefined:
  "snd (response_error_handler JUndefined w) = Inl TypeError"
  by (simp add: response_error_handler_def build_message_def response_data_field_def
      member_def js_or_def)

subsection \<open>The surfaced message\<close>

text \<open>
  Claim C1, as the specification states it, fails on an error whose response body holds an
  empty \<^verbatim>\<open>detail\<close> string beside a \<^verbatim>\<open>message\<close>: the \<^verbatim>\<open>detail\<close> string is present and
  is the first present value, yet the notification carries the \<^verbatim>\<open>message\<close>, since
  \<^verbatim>\<open>||\<close> passes over a falsy operand.
\<close>

theorem surfaced_message_counterexample:
  "notifications (fst (response_error_handler
      (JObj [(''response'', JObj [(''status'', JNum 400),
         (''data'', JObj [(''detail'', JStr ''''), (''message'', JStr ''bad'')])]),
       (''message'', JStr ''Request failed with status code 400'')]) empty_world)) = [JStr ''bad'']
   \<and> spec_message
      (JObj [(''response'', JObj [(''status'', JNum 400),
         (''data'', JObj [(''detail'', JStr ''''), (''message'', JStr ''bad'')])]),
       (''message'', JStr ''Request failed with status code 400'')]) = JStr ''''"
  by (simp add: handler_defined Let_def probed_values_def opt_member_def spec_message_def
      ElMessage_error_def console_error_def empty_world_def)

text \<open>
  Claim C1, amended: for every error object the surfaced message is the first truthy value
  among \<^verbatim>\<open>response.data.detail\<close>, \<^verbatim>\<open>response.data.message\<close> and the message of the
  error, in that order, and the fallback literal when none is truthy; the one call of
  \<^verbatim>\<open>ElMessage.error\<close> carries it. A falsy value (absent, \<^verbatim>\<open>null\<close>, the empty string, \<^verbatim>\<open>0\<close>, \<^verbatim>\<open>false\<close>) is
  passed over and a truthy value of any type is taken. So the message is the first
  present string of the specification whenever no probed value is an empty string or a
  truthy value that is no string.
\<close>

theorem surfaced_message_first_truthy:
  assumes "\<not> nullish e"
  shows "build_message e =
           Inr (case filter truthy (probed_values e) of
                  [] \<Rightarrow> JStr fallback_message | v # vs \<Rightarrow> v)
       \<and> notifications (fst (response_error_handler e w)) =
           notifications w @
             [case filter truthy (probed_values e) of
                [] \<Rightarrow> JStr fallback_message | v # vs \<Rightarrow> v]
       \<and> ((\<forall>v \<in> set (probed_values e). is_string v = truthy v) \<longrightarrow>
            build_message e = Inr (spec_message e))"
proof (intro conjI impI)
  show msg: "build_message e =
      Inr (case filter truthy (probed_values e) of [] \<Rightarrow> JStr fallback_message | v # vs \<Rightarrow> v)"
    using assms by (rule build_message_defined)
  show "notifications (fst (response_error_handler e w)) =
      notifications w @
        [case filter truthy (probed_values e) of [] \<Rightarrow> JStr fallback_message | v # vs \<Rightarrow> v]"
    using assms
    by (simp add: handler_defined Let_def ElMessage_error_def console_error_def)
  assume "\<forall>v \<in> set (probed_values e). is_string v = truthy v"
  then have "filter is_string (probed_values e) = filter truthy (probed_values e)"
    by (intro filter_cong) simp_all
  then show "build_message e = Inr (spec_message e)"
    by (simp add: msg spec_message_def)
qed

theorem surfaced_message_first_truthy_witness:
  "\<not> nullish (JObj [(''response'', JObj [(''status'', JNum 404),
         (''data'', JObj [(''detail'', JStr ''Not Found'')])]),
       (''message'', JStr ''Request failed with status code 404'')])
   \<and> build_message (JObj [(''response'', JObj [(''status'', JNum 404),
         (''data'', JObj [(''detail'', JStr ''Not Found'')])]),
       (''message'', JStr ''Request failed with status code 404'')]) = Inr (JStr ''Not Found'')
   \<and> spec_message (JObj [(''response'', JObj [(''status'', JNum 404),
         (''data'', JObj [(''detail'', JStr ''Not Found'')])]),
       (''message'', JStr ''Request failed with status code 404'')]) = JStr ''Not Found''"
proof -
  let ?e = "JObj [(''response'', JObj [(''status'', JNum 404),
         (''data'', JObj [(''detail'', JStr ''Not Found'')])]),
       (''message'', JStr ''Request failed with status code 404'')]"
  have h: "\<not> nullish ?e" by simp
  have pv: "probed_values ?e =
      [JStr ''Not Found'', JUndefined, JStr ''Request failed with status code 404'']"
    by (simp add: probed_values_def opt_member_def)
  have "\<forall>v \<in> set (probed_values ?e). is_string v = truthy v"
    by (simp add: pv)
  with surfaced_message_first_truthy [OF h, of empty_world]
  have "build_message ?e = Inr (spec_message ?e)"
    and "build_message ?e =
      Inr (case filter truthy (probed_values ?e) of [] \<Rightarrow> JStr fallback_message | v # vs \<Rightarrow> v)"
    by blast+
  then show ?thesis by (simp add: pv)
qed

subsection \<open>Notification and rejection\<close>


lemma request_on_success:
  assumes "adapter inst (JObj (request_interceptor (merge_config (defaults inst) config))) = Inr r"
  shows "request inst config w =
     (w\<lparr>sent := sent w @ [JObj (request_interceptor (merge_config (defaults inst) config))]\<rparr>,
      Inr (Fulfilled (data r)))"
  using assms by (simp add: request_def Let_def response_success_handler_def)





subsection \<open>The success path\<close>

lemma object_differs_from_field: "JObj ((k, x) # fs) \<noteq> x"
proof
  assume "JObj ((k, x) # fs) = x"
  then have "size (JObj ((k, x) # fs)) = size x" by simp
  then show False by simp
qed

text \<open>
  Claim C3: on success the response interceptor returns the body of the response and
  nothing of the envelope (status, status text and headers do not reach the result); the
  body is returned as it is, whatever its shape, and it is unwrapped once only: a body
  that itself holds a \<^verbatim>\<open>data\<close> field is returned whole, not its inner value. Through
  \<^verbatim>\<open>request\<close> the caller is fulfilled with the body, with no notification and no
  console output.
\<close>

theorem success_returns_body_once:
  "response_success_handler r = data r
   \<and> response_success_handler (r\<lparr>status := s, statusText := t, headers := h\<rparr>) =
       response_success_handler r
   \<and> response_success_handler (r\<lparr>data := JObj ((''data'', x) # fs)\<rparr>) = JObj ((''data'', x) # fs)
   \<and> response_success_handler (r\<lparr>data := JObj ((''data'', x) # fs)\<rparr>) \<noteq> x
   \<and> (adapter inst (JObj (request_interceptor (merge_config (defaults inst) config))) = Inr r
        \<longrightarrow> snd (request inst config w) = Inr (Fulfilled (data r))
          \<and> notifications (fst (request inst config w)) = notifications w
          \<and> console (fst (request inst config w)) = console w)"
  by (simp add: response_success_handler_def object_differs_from_field request_on_success)

theorem success_returns_body_once_witness:
  "adapter sample_client
     (JObj (request_interceptor (merge_config (defaults sample_client)
        (get_config ''/geo/articles'' JUndefined None)))) =
     Inr \<lparr>data = JObj [(''data'', JArr []), (''success'', JBool True)],
          status = 200, statusText = ''OK'', headers = []\<rparr>
   \<and> snd (request sample_client (get_config ''/geo/articles'' JUndefined None) empty_world) =
       Inr (Fulfilled (JObj [(''data'', JArr []), (''success'', JBool True)]))
   \<and> notifications
        (fst (request sample_client (get_config ''/geo/articles'' JUndefined None) empty_world)) = []"
proof -
  let ?r = "\<lparr>data = JObj [(''data'', JArr []), (''success'', JBool True)],
          status = 200, statusText = ''OK'', headers = []\<rparr>"
  let ?c = "get_config ''/geo/articles'' JUndefined None"
  have h: "adapter sample_client
      (JObj (request_interceptor (merge_config (defaults sample_client) ?c))) = Inr ?r"
    by (simp add: sample_client_def axios_instance_def sample_network_def)
  from success_returns_body_once [where r = ?r and inst = sample_client and config = ?c
      and w = empty_world] h
  have "snd (request sample_client ?c empty_world) = Inr (Fulfilled (data ?r))"
    and "notifications (fst (request sample_client ?c empty_world)) = notifications empty_world"
    by blast+
  with h show ?thesis by (simp add: empty_world_def)
qed

subsection \<open>The diagnostic dump\<close>

text \<open>
  Claim C4: after the line every failure logs (the label and the error object), the
  console gets one more entry, the label of the 500 dump with the raw body
  \<^verbatim>\<open>error.response.data\<close>, exactly when \<^verbatim>\<open>error.response?.status\<close> is the number 500,
  and no such entry for any other status; in both cases \<^verbatim>\<open>ElMessage.error\<close> is called
  exactly once.
\<close>

theorem status_500_dump:
  assumes "\<not> nullish e"
  shows "console (fst (response_error_handler e w)) =
           console w @ [[JStr response_error_label, e]] @
             (if opt_member (get_prop e ''response'') ''status'' = JNum 500
              then [[JStr backend_500_label, get_prop (get_prop e ''response'') ''data'']]
              else [])
       \<and> length (notifications (fst (response_error_handler e w))) =
           Suc (length (notifications w))"
  using assms
  by (simp add: handler_defined Let_def ElMessage_error_def console_error_def)

theorem status_500_dump_witness:
  "\<not> nullish (JObj [(''response'', JObj [(''status'', JNum 500),
        (''data'', JObj [(''detail'', JStr ''Internal Server Error'')])]),
      (''message'', JStr ''Request failed with status code 500'')])
   \<and> console (fst (response_error_handler
        (JObj [(''response'', JObj [(''status'', JNum 500),
           (''data'', JObj [(''detail'', JStr ''Internal Server Error'')])]),
         (''message'', JStr ''Request failed with status code 500'')]) empty_world)) =
       [[JStr response_error_label,
         JObj [(''response'', JObj [(''status'', JNum 500),
           (''data'', JObj [(''detail'', JStr ''Internal Server Error'')])]),
          (''message'', JStr ''Request failed with status code 500'')]],
        [JStr backend_500_label, JObj [(''detail'', JStr ''Internal Server Error'')]]]
   \<and> length (notifications (fst (response_error_handler
        (JObj [(''response'', JObj [(''status'', JNum 500),
           (''data'', JObj [(''detail'', JStr ''Internal Server Error'')])]),
         (''message'', JStr ''Request failed with status code 500'')]) empty_world))) = 1"
proof -
  let ?e = "JObj [(''response'', JObj [(''status'', JNum 500),
        (''data'', JObj [(''detail'', JStr ''Internal Server Error'')])]),
      (''message'', JStr ''Request failed with status code 500'')]"
  have h: "\<not> nullish ?e" by simp
  show ?thesis
    using h status_500_dump [OF h, of empty_world]
    by (simp add: opt_member_def empty_world_def)
qed

subsection \<open>Malformed errors\<close>




section \<open>Properties of the transport client and the facades\<close>

subsection \<open>Looking up a property after a spread\<close>

lemma map_of_fold_update:
  "distinct (map fst fs) \<Longrightarrow>
   map_of (fold (\<lambda>(k, v). AList.update k v) fs base) = map_of base ++ map_of fs"
proof (induction fs arbitrary: base)
  case Nil
  then show ?case by simp
next
  case (Cons p fs)
  obtain k v where p: "p = (k, v)" by (cases p)
  from Cons.prems p have fresh: "k \<notin> dom (map_of fs)" and d: "distinct (map fst fs)"
    by (auto simp: dom_map_of_conv_image_fst)
  have "map_of (fold (\<lambda>(k, v). AList.update k v) (p # fs) base) =
        map_of (AList.update k v base) ++ map_of fs"
    using Cons.IH [OF d] p by simp
  also have "\<dots> = (map_of base)(k \<mapsto> v) ++ map_of fs"
    by (simp add: AList.update_conv')
  also have "\<dots> = (map_of base ++ map_of fs)(k \<mapsto> v)"
    using fresh by (rule map_add_upd_left)
  also have "\<dots> = map_of base ++ (map_of fs)(k \<mapsto> v)"
    by (simp only: map_add_upd)
  finally show ?case by (simp only: p map_of.simps fst_conv snd_conv)
qed

lemma map_of_spread: "map_of (spread base config) = map_of base ++ config_props config"
  by (cases config)
     (simp_all add: spread_def config_props_def map_of_fold_update AList.distinct_clearjunk
        AList.map_of_clearjunk)

lemma map_of_merge_config:
  "map_of (merge_config d config) = map_of d ++ map_of (filter (\<lambda>(k, v). v \<noteq> JUndefined) config)"
  by (simp add: merge_config_def map_of_spread config_props_def)

lemma map_of_wire:
  "map_of (request_interceptor (merge_config d config)) k =
     (case map_of (filter (\<lambda>(k, v). v \<noteq> JUndefined) config) k of
        None \<Rightarrow> map_of d k
      | Some v \<Rightarrow> Some v)"
  by (simp add: request_interceptor_def map_of_merge_config map_add_def)

subsection \<open>The verb helpers\<close>



subsection \<open>The requests on the wire\<close>

lemma handler_keeps_sent: "sent (fst (response_error_handler e w)) = sent w"
  by (simp add: response_error_handler_def Let_def ElMessage_error_def console_error_def
      split: sum.splits bool.splits)

lemma request_sent:
  "sent (fst (request inst config w)) =
   sent w @ [JObj (request_interceptor (merge_config (defaults inst) config))]"
  by (simp add: request_def Let_def handler_keeps_sent split: sum.splits)

lemma get_wire_timeout:
  "map_of (request_interceptor (merge_config d (get_config url p None))) ''timeout'' =
   map_of d ''timeout''"
  by (simp add: map_of_wire get_config_def spread_def)

lemma del_wire_timeout:
  "map_of (request_interceptor (merge_config d (del_config url p None))) ''timeout'' =
   map_of d ''timeout''"
  by (simp add: map_of_wire del_config_def spread_def)

lemma post_wire_timeout:
  "map_of (request_interceptor (merge_config d (post_config url p None))) ''timeout'' =
   map_of d ''timeout''"
  by (simp add: map_of_wire post_config_def spread_def)

lemma put_wire_timeout:
  "map_of (request_interceptor (merge_config d (put_config url p None))) ''timeout'' =
   map_of d ''timeout''"
  by (simp add: map_of_wire put_config_def spread_def)

lemma generate_wire_timeout:
  "map_of (request_interceptor (merge_config d
      (post_config url p (Some [(''timeout'', JNum 300000)])))) ''timeout'' = Some (JNum 300000)"
  by (simp add: map_of_wire post_config_def spread_def)

lemmas facade_defs =
  accountApi_getList_def accountApi_startAuth_def accountApi_getAuthStatus_def
  accountApi_update_def accountApi_delete_def
  geoKeywordApi_getProjects_def geoKeywordApi_getProject_def
  geoKeywordApi_getProjectKeywords_def geoKeywordApi_createProject_def
  geoKeywordApi_createKeyword_def geoKeywordApi_distill_def
  geoKeywordApi_generateQuestions_def
  geoArticleApi_getArticles_def geoArticleApi_generate_def geoArticleApi_checkQuality_def
  geoArticleApi_checkIndex_def geoArticleApi_getDetail_def geoArticleApi_delete_def
  indexCheckApi_check_def indexCheckApi_getRecords_def indexCheckApi_getTrend_def
  reportsApi_getOverview_def reportsApi_getTrends_def reportsApi_getIndexTrend_def
  schedulerApi_getJobs_def schedulerApi_start_def schedulerApi_stop_def

lemmas verb_defs = get_def post_def put_def del_def

lemma perform_sends_one:
  "\<exists>wire. sent (fst (perform inst c w)) = sent w @ [wire]
     \<and> get_prop wire ''timeout'' =
         (if is_generate c then JNum 300000 else get_prop (JObj (defaults inst)) ''timeout'')"
  by (cases c)
     (simp_all add: facade_defs verb_defs request_sent get_wire_timeout del_wire_timeout
        post_wire_timeout put_wire_timeout generate_wire_timeout)

lemma perform_all_timeouts:
  "map (\<lambda>r. get_prop r ''timeout'') (sent (perform_all inst cs w)) =
   map (\<lambda>r. get_prop r ''timeout'') (sent w) @
   map (\<lambda>c. if is_generate c then JNum 300000 else get_prop (JObj (defaults inst)) ''timeout'') cs"
proof (induction cs arbitrary: w)
  case Nil
  then show ?case by simp
next
  case (Cons c cs)
  from perform_sends_one [of inst c w] obtain wire where
    s: "sent (fst (perform inst c w)) = sent w @ [wire]" and
    t: "get_prop wire ''timeout'' =
         (if is_generate c then JNum 300000 else get_prop (JObj (defaults inst)) ''timeout'')"
    by blast
  show ?case
    using Cons.IH [of "fst (perform inst c w)"] s t by simp
qed

text \<open>
  Claim C7: the call of \<^verbatim>\<open>geoArticleApi.generate\<close> goes on the wire as a POST of
  \<^verbatim>\<open>/geo/generate\<close> with the timeout 300000, whatever the defaults of the client. In
  any run of facade calls on one client, each request of \<^verbatim>\<open>generate\<close> has the timeout
  300000 and every other request has the default of the client, before and after a
  \<^verbatim>\<open>generate\<close>: no other operation sets a timeout, and the override does not stay.
  The default of the client of the program is 30000.
\<close>

theorem generate_timeout_override:
  "(\<exists>wire. sent (fst (geoArticleApi_generate inst body w)) = sent w @ [wire]
       \<and> get_prop wire ''timeout'' = JNum 300000
       \<and> get_prop wire ''method'' = JStr ''POST''
       \<and> get_prop wire ''url'' = JStr ''/geo/generate'')
   \<and> map (\<lambda>r. get_prop r ''timeout'') (sent (perform_all inst cs w)) =
       map (\<lambda>r. get_prop r ''timeout'') (sent w) @
       map (\<lambda>c. if is_generate c then JNum 300000
                 else get_prop (JObj (defaults inst)) ''timeout'') cs
   \<and> get_prop (JObj (defaults (axios_instance env_url net))) ''timeout'' = JNum 30000"
proof (intro conjI)
  show "\<exists>wire. sent (fst (geoArticleApi_generate inst body w)) = sent w @ [wire]
       \<and> get_prop wire ''timeout'' = JNum 300000
       \<and> get_prop wire ''method'' = JStr ''POST''
       \<and> get_prop wire ''url'' = JStr ''/geo/generate''"
    by (simp add: geoArticleApi_generate_def post_def request_sent map_of_wire
        post_config_def spread_def)
  show "map (\<lambda>r. get_prop r ''timeout'') (sent (perform_all inst cs w)) =
       map (\<lambda>r. get_prop r ''timeout'') (sent w) @
       map (\<lambda>c. if is_generate c then JNum 300000
                 else get_prop (JObj (defaults inst)) ''timeout'') cs"
    by (rule perform_all_timeouts)
  show "get_prop (JObj (defaults (axios_instance env_url net))) ''timeout'' = JNum 30000"
    by (simp add: axios_instance_def)
qed

theorem generate_timeout_override_witness:
  "map (\<lambda>r. get_prop r ''timeout'')
     (sent (perform_all sample_client
        [ReportsGetTrends JUndefined,
         ArticleGenerate (JObj [(''keyword_id'', JNum 5), (''platform'', JStr ''zhihu'')]),
         AccountDelete 7] empty_world)) =
   [JNum 30000, JNum 300000, JNum 30000]"
  using generate_timeout_override [of sample_client JUndefined empty_world
      "[ReportsGetTrends JUndefined,
        ArticleGenerate (JObj [(''keyword_id'', JNum 5), (''platform'', JStr ''zhihu'')]),
        AccountDelete 7]" JUndefined sample_network]
  by (simp add: sample_client_def empty_world_def)

subsection \<open>The day window of the trend reads\<close>

text \<open>
  Claim C8, as the specification states it, fails: \<^verbatim>\<open>indexCheckApi.getTrend(5)\<close> and
  \<^verbatim>\<open>indexCheckApi.getTrend(5, 7)\<close> put the same request on the wire, with
  \<^verbatim>\<open>params = { days: 7 }\<close>.
\<close>

theorem trend_default_counterexample:
  "sent (fst (indexCheckApi_getTrend sample_client 5 JUndefined empty_world)) =
     [JObj [(''baseURL'', JStr ''/api''), (''timeout'', JNum 30000),
            (''headers'', JObj [(''Content-Type'', JStr ''application/json'')]),
            (''method'', JStr ''GET''), (''url'', JStr ''/index-check/trend/5''),
            (''params'', JObj [(''days'', JNum 7)])]]
   \<and> sent (fst (indexCheckApi_getTrend sample_client 5 (JNum 7) empty_world)) =
     [JObj [(''baseURL'', JStr ''/api''), (''timeout'', JNum 30000),
            (''headers'', JObj [(''Content-Type'', JStr ''application/json'')]),
            (''method'', JStr ''GET''), (''url'', JStr ''/index-check/trend/5''),
            (''params'', JObj [(''days'', JNum 7)])]]"
  by (simp add: indexCheckApi_getTrend_def get_def request_sent default_param_def
      sample_client_def axios_instance_def BASE_URL_def empty_world_def
      request_interceptor_def merge_config_def get_config_def spread_def show_number_def)

text \<open>
  Claim C8, amended: for the trend reads (\<^verbatim>\<open>indexCheckApi.getTrend\<close> with default 7,
  \<^verbatim>\<open>reportsApi.getTrends\<close> with default 30), omitting the day window and passing the
  default value are the same call and produce the same wire request: the facade puts the
  default in place of an omitted argument and always sends a \<^verbatim>\<open>days\<close> parameter.
\<close>

theorem trend_default_always_sent:
  "indexCheckApi_getTrend inst keywordId JUndefined = indexCheckApi_getTrend inst keywordId (JNum 7)
   \<and> reportsApi_getTrends inst JUndefined = reportsApi_getTrends inst (JNum 30)
   \<and> (\<exists>wire. sent (fst (indexCheckApi_getTrend inst keywordId days w)) = sent w @ [wire]
         \<and> get_prop wire ''params'' =
             JObj [(''days'', if days = JUndefined then JNum 7 else days)])
   \<and> (\<exists>wire. sent (fst (reportsApi_getTrends inst days w)) = sent w @ [wire]
         \<and> get_prop wire ''params'' =
             JObj [(''days'', if days = JUndefined then JNum 30 else days)])"
  by (simp add: indexCheckApi_getTrend_def reportsApi_getTrends_def default_param_def get_def
      request_sent map_of_wire get_config_def spread_def)

theorem trend_default_always_sent_witness:
  "indexCheckApi_getTrend sample_client 5 JUndefined empty_world =
     indexCheckApi_getTrend sample_client 5 (JNum 7) empty_world
   \<and> reportsApi_getTrends sample_client JUndefined empty_world =
     reportsApi_getTrends sample_client (JNum 30) empty_world"
  using trend_default_always_sent [of sample_client 5 JUndefined empty_world]
  by simp

section \<open>Properties of the views\<close>

subsection \<open>Lists read from a response\<close>

lemma truthy_not_nullish: "truthy v \<Longrightarrow> \<not> nullish v"
  by (cases v) simp_all

lemma array_truthy: "is_array v \<Longrightarrow> truthy v"
  by (cases v) simp_all

lemma falsy_has_no_array: "\<not> truthy v \<Longrightarrow> \<not> is_array (get_prop v k)"
  by (cases v) simp_all

text \<open>
  \<^verbatim>\<open>loadArticles\<close> follows the rule of the specification on every response, and never
  throws.
\<close>

lemma loadArticles_follows_rule:
  "loadArticles_articles res = Inr (spec_list_of_response res)"
  by (simp add: loadArticles_articles_def spec_list_of_response_def member_def
      truthy_not_nullish falsy_has_no_array)

text \<open>
  The expression of \<^verbatim>\<open>initChart\<close> (and of the loaders of projects and keywords)
  follows the rule when the \<^verbatim>\<open>data\<close> field holds a sequence or a falsy value.
\<close>

lemma initChart_follows_rule_on_lists:
  assumes "is_array (opt_member res ''data'') \<or> \<not> truthy (opt_member res ''data'')"
  shows "initChart_data res = spec_list_of_response res"
proof (cases "nullish res")
  case True
  then show ?thesis
    by (cases res) (simp_all add: initChart_data_def spec_list_of_response_def opt_member_def)
next
  case False
  with assms show ?thesis
    by (auto simp add: initChart_data_def spec_list_of_response_def opt_member_def Let_def
        dest: array_truthy)
qed

text \<open>
  It departs from the rule exactly on the other responses: a \<^verbatim>\<open>data\<close> field that is
  truthy and no sequence is kept as the list.
\<close>

lemma initChart_departs_from_rule:
  assumes "\<not> is_array res" and "truthy (opt_member res ''data'')"
    and "\<not> is_array (opt_member res ''data'')"
  shows "initChart_data res = opt_member res ''data'' \<and> spec_list_of_response res = JArr []"
  using assms
  by (cases "nullish res")
     (auto simp add: initChart_data_def spec_list_of_response_def opt_member_def Let_def)

lemma loaders_share_expression:
  "loadProjects_projects res = initChart_data res
   \<and> onProjectChange_keywords res = initChart_data res"
  by (simp add: loadProjects_projects_def onProjectChange_keywords_def initChart_data_def)

text \<open>
  Claim C9 states the three-case rule for every caller. \<^verbatim>\<open>initChart\<close> departs from it
  on a response whose \<^verbatim>\<open>data\<close> field holds an object that is no sequence, here
  \<^verbatim>\<open>{ data: { items: [], total: 0 } }\<close>: it keeps that object as its list, and
  \<^verbatim>\<open>data.map\<close> then throws, where the rule, and \<^verbatim>\<open>loadArticles\<close> on the same
  response, give the empty sequence.
\<close>

theorem initChart_keeps_non_sequence:
  "initChart_data (JObj [(''data'', JObj [(''items'', JArr []), (''total'', JNum 0)])]) =
     JObj [(''items'', JArr []), (''total'', JNum 0)]
   \<and> initChart_series (JObj [(''data'', JObj [(''items'', JArr []), (''total'', JNum 0)])]) =
     Inl TypeError
   \<and> spec_list_of_response (JObj [(''data'', JObj [(''items'', JArr []), (''total'', JNum 0)])]) =
     JArr []
   \<and> loadArticles_articles (JObj [(''data'', JObj [(''items'', JArr []), (''total'', JNum 0)])]) =
     Inr (JArr [])"
  by (simp add: initChart_data_def initChart_series_def spec_list_of_response_def
      loadArticles_articles_def opt_member_def member_def)

subsection \<open>The log of the monitoring view\<close>

lemma onmessage_accepted:
  assumes "truthy d" and "truthy (get_prop d ''message'')"
  shows "socket_onmessage (Inr d) logs =
     (let pushed = logs @
            [\<lparr>entry_time = (if truthy (get_prop d ''time'') then get_prop d ''time'' else JStr []),
              entry_level = (if truthy (get_prop d ''level'') then get_prop d ''level''
                             else JStr ''INFO''),
              entry_message = get_prop d ''message''\<rparr>]
      in if length pushed > 50 then tl pushed else pushed)"
  using assms
  by (simp add: socket_onmessage_def member_def js_or_def truthy_not_nullish Let_def)

lemma onmessage_cases:
  "socket_onmessage ev logs = logs
   \<or> (\<exists>x. socket_onmessage ev logs =
         (if length (logs @ [x]) > 50 then tl (logs @ [x]) else logs @ [x]))"
  by (auto simp add: socket_onmessage_def Let_def split: sum.splits)

lemma onmessage_bounded:
  assumes "length logs \<le> 50"
  shows "length (socket_onmessage ev logs) \<le> 50"
  using onmessage_cases [of ev logs] assms by auto

lemma receive_all_bounded:
  "length logs \<le> 50 \<Longrightarrow> length (receive_all evs logs) \<le> 50"
  by (induction evs arbitrary: logs) (simp_all add: onmessage_bounded)

text \<open>
  Claim C10: after any run of messages, from the empty list the view starts with, the log
  holds at most 50 entries; one message keeps a log of at most 50 entries at most 50
  long; and a message that is logged when the log holds 50 entries removes the oldest
  entry and puts the new one last.
\<close>

theorem log_holds_at_most_50:
  "length (receive_all evs []) \<le> 50
   \<and> (length logs \<le> 50 \<longrightarrow> length (socket_onmessage ev logs) \<le> 50)
   \<and> (length logs = 50 \<and> truthy d \<and> truthy (get_prop d ''message'') \<longrightarrow>
        socket_onmessage (Inr d) logs =
          tl logs @
          [\<lparr>entry_time = (if truthy (get_prop d ''time'') then get_prop d ''time'' else JStr []),
            entry_level = (if truthy (get_prop d ''level'') then get_prop d ''level''
                           else JStr ''INFO''),
            entry_message = get_prop d ''message''\<rparr>])"
proof (intro conjI impI)
  show "length (receive_all evs []) \<le> 50"
    by (rule receive_all_bounded) simp
  show "length (socket_onmessage ev logs) \<le> 50" if "length logs \<le> 50"
    using that by (rule onmessage_bounded)
next
  assume a: "length logs = 50 \<and> truthy d \<and> truthy (get_prop d ''message'')"
  then have "logs \<noteq> []" by auto
  with a show "socket_onmessage (Inr d) logs =
          tl logs @
          [\<lparr>entry_time = (if truthy (get_prop d ''time'') then get_prop d ''time'' else JStr []),
            entry_level = (if truthy (get_prop d ''level'') then get_prop d ''level''
                           else JStr ''INFO''),
            entry_message = get_prop d ''message''\<rparr>]"
    by (simp add: onmessage_accepted Let_def)
qed

theorem log_holds_at_most_50_witness:
  "length (replicate 50 \<lparr>entry_time = JStr [], entry_level = JStr ''INFO'',
                           entry_message = JStr ''started''\<rparr>) \<le> 50
   \<and> truthy (JObj [(''message'', JStr ''done''), (''level'', JStr ''SUCCESS'')])
   \<and> truthy (get_prop (JObj [(''message'', JStr ''done''), (''level'', JStr ''SUCCESS'')])
         ''message'')
   \<and> socket_onmessage (Inr (JObj [(''message'', JStr ''done''), (''level'', JStr ''SUCCESS'')]))
        (replicate 50 \<lparr>entry_time = JStr [], entry_level = JStr ''INFO'',
                         entry_message = JStr ''started''\<rparr>) =
       replicate 49 \<lparr>entry_time = JStr [], entry_level = JStr ''INFO'',
                       entry_message = JStr ''started''\<rparr> @
       [\<lparr>entry_time = JStr [], entry_level = JStr ''SUCCESS'', entry_message = JStr ''done''\<rparr>]
   \<and> length (receive_all
        [Inr (JObj [(''message'', JStr ''done''), (''level'', JStr ''SUCCESS'')]),
         Inl SyntaxError] []) \<le> 50"
proof -
  let ?x = "\<lparr>entry_time = JStr [], entry_level = JStr ''INFO'',
             entry_message = JStr ''started''\<rparr>"
  let ?d = "JObj [(''message'', JStr ''done''), (''level'', JStr ''SUCCESS'')]"
  have h: "length (replicate 50 ?x) = 50 \<and> truthy ?d \<and> truthy (get_prop ?d ''message'')"
    by simp
  from log_holds_at_most_50 [of "[Inr ?d, Inl SyntaxError]" "replicate 50 ?x" "Inr ?d" ?d] h
  have "socket_onmessage (Inr ?d) (replicate 50 ?x) =
          tl (replicate 50 ?x) @
          [\<lparr>entry_time = (if truthy (get_prop ?d ''time'') then get_prop ?d ''time'' else JStr []),
            entry_level = (if truthy (get_prop ?d ''level'') then get_prop ?d ''level''
                           else JStr ''INFO''),
            entry_message = get_prop ?d ''message''\<rparr>]"
    and "length (receive_all [Inr ?d, Inl SyntaxError] []) \<le> 50"
    by blast+
  then show ?thesis by simp
qed

end
